theory Spec2Isabelle
  imports Complex_Main "HOL-Library.Multiset" "HOL-Library.Char_ord"
    "HOL-Library.List_Lexorder" "HOL-Library.Product_Lexorder"
begin

section \<open>Values, errors and tables\<close>

text \<open>
  The program is Python over pandas data frames. A value held in a frame is a number, a
  piece of text, or the missing value (pandas' NaN). Numbers are idealised as reals: the
  rounding of binary floating point is not modelled. \<open>Txt\<close> is text that pandas reads
  neither as a number nor as a missing value: \<open>read_csv\<close> turns a blank cell and the
  markers of a missing value (NA, N/A, n/a, NaN, null and the like) into NaN. \<open>Txt\<close> is
  also what a cell is when \<open>read_csv\<close> left its column as text because some cell of the
  column is not a number.

  A NaN carries the identity of the Python float object that holds it. Python's sets and
  dictionaries tell two NaN objects apart (NaN is not equal to itself, only the same
  object is found again), while pandas takes all NaN values as equal. Reading a cell of a
  float column makes a new object each time, so the missing cells of a float column are
  all different objects; a column of objects holds references, which may be shared. The
  identity matters only where the labels of a Sankey diagram are collected.
\<close>

datatype cell = Num real | Txt string | NaN nat

text \<open>The exceptions the modelled code can raise.\<close>

datatype error = KeyError string | ValueError | TypeError | AssertionError | InvalidIndexError

text \<open>
  Python's comparison of a value with a numeric constant: a number compares as usual,
  every comparison with NaN is false, and comparing text with a number raises TypeError.
\<close>

fun py_gt :: "cell \<Rightarrow> real \<Rightarrow> error + bool" where
  "py_gt (Num x) c = Inr (x > c)"
| "py_gt (NaN i) c = Inr False"
| "py_gt (Txt s) c = Inl TypeError"

fun py_ge :: "cell \<Rightarrow> real \<Rightarrow> error + bool" where
  "py_ge (Num x) c = Inr (x \<ge> c)"
| "py_ge (NaN i) c = Inr False"
| "py_ge (Txt s) c = Inl TypeError"

fun py_le :: "cell \<Rightarrow> real \<Rightarrow> error + bool" where
  "py_le (Num x) c = Inr (x \<le> c)"
| "py_le (NaN i) c = Inr False"
| "py_le (Txt s) c = Inl TypeError"

section \<open>The data model (esgstocks_api.py)\<close>

text \<open>
  One row of the ESG table as \<open>read_csv\<close> returns it. Ticker symbol and company name are
  text (other values there are not part of the model); the score columns hold whatever
  the file holds. \<open>header\<close> lists the column names
  the file really has: a field of a row is read only after the column was found in the
  header, as the access \<open>df["name"]\<close> raises KeyError otherwise.
\<close>

record esg_row =
  Symbol :: string
  Full_Name :: string
  totalEsg :: cell
  environmentScore :: cell
  socialScore :: cell
  governanceScore :: cell
  overallRisk :: cell

record esg_frame =
  header :: "string list"
  records :: "esg_row list"

text \<open>
  The wide price table as \<open>read_csv\<close> returns it: the "Date" column (absent when the file
  has no such column) and one column of prices per ticker, in file order. A date cell is
  text that \<open>to_datetime\<close> either parses, giving a timestamp (timezone dropped), or
  rejects. A price is a float, \<open>None\<close> for a blank cell (NaN). Blank dates and price
  columns that hold text are not part of the model.
\<close>

datatype date_text = Parsable int | Unparsable

record price_frame =
  Date_column :: "date_text list option"
  value_columns :: "(string \<times> real option list) list"

text \<open>One row of the long price table kept in \<open>self.stocks\<close>.\<close>

record stock_row =
  Date :: int
  Symbol :: string
  Price :: "real option"
  Full_Name :: string

text \<open>The object after \<open>read_data\<close>: \<open>self.esg\<close> and \<open>self.stocks\<close>.\<close>

record api =
  esg :: esg_frame
  stocks :: "stock_row list"

section \<open>Loading (read_data)\<close>

text \<open>\<open>pd.to_numeric\<close>: numbers and blanks pass, text that is not a number raises.\<close>

fun to_numeric :: "cell list \<Rightarrow> error + cell list" where
  "to_numeric [] = Inr []"
| "to_numeric (Txt s # cs) = Inl ValueError"
| "to_numeric (c # cs) = (case to_numeric cs of Inl e \<Rightarrow> Inl e | Inr vs \<Rightarrow> Inr (c # vs))"

text \<open>\<open>pd.to_datetime(...).dt.tz_localize(None)\<close>: every cell has to parse.\<close>

fun to_datetime :: "date_text list \<Rightarrow> error + int list" where
  "to_datetime [] = Inr []"
| "to_datetime (Unparsable # ds) = Inl ValueError"
| "to_datetime (Parsable t # ds) =
     (case to_datetime ds of Inl e \<Rightarrow> Inl e | Inr ts \<Rightarrow> Inr (t # ts))"

text \<open>\<open>dict(zip(keys, values))\<close>: a key that occurs twice keeps its last value.\<close>

definition dict_zip :: "'k list \<Rightarrow> 'v list \<Rightarrow> ('k \<rightharpoonup> 'v)" where
  "dict_zip ks vs = map_of (rev (zip ks vs))"

text \<open>
  \<open>melt(id_vars = ["Date"], var_name = "Symbol", value_name = "Price")\<close>: column after
  column, each row of the wide table gives one (date, symbol, price) row. \<open>melt\<close> first
  raises ValueError when the table already has a column with the name given as
  \<open>value_name\<close>, here "Price".
\<close>

definition melt ::
  "int list \<Rightarrow> (string \<times> real option list) list
     \<Rightarrow> error + (int \<times> string \<times> real option) list" where
  "melt dates cols =
     (if ''Price'' \<in> set (map fst cols) then Inl ValueError
      else Inr (concat (map (\<lambda>(sym, ps). map (\<lambda>(d, p). (d, sym, p)) (zip dates ps)) cols)))"

text \<open>
  \<^verbatim>\<open>
  def read_data(self, esg_filename, stocks_filename):
      self.esg = pd.read_csv(esg_filename)
      self.esg["totalEsg"] = pd.to_numeric(self.esg["totalEsg"])
      ticker_to_name = dict(zip(self.esg["Symbol"], self.esg["Full Name"]))
      initial_stocks_df = pd.read_csv(stocks_filename)
      initial_stocks_df["Date"] = pd.to_datetime(initial_stocks_df["Date"]).dt.tz_localize(None)
      adjusted_stocks_df = initial_stocks_df.melt(id_vars = ["Date"],
                                                  var_name = "Symbol", value_name = "Price")
      adjusted_stocks_df = adjusted_stocks_df[adjusted_stocks_df["Symbol"].isin(ticker_to_name)]
      adjusted_stocks_df["Full Name"] = adjusted_stocks_df["Symbol"].map(ticker_to_name)
      self.stocks = adjusted_stocks_df
  \<close>
  The arguments are the two tables \<open>read_csv\<close> returned. \<open>isin\<close> keeps the rows whose
  symbol is a key of the dictionary and \<open>map\<close> looks the name up: a row is kept, with its
  name, exactly when the lookup succeeds.
\<close>

definition read_data :: "esg_frame \<Rightarrow> price_frame \<Rightarrow> error + api" where
  "read_data esg_csv stocks_csv =
     (if ''totalEsg'' \<notin> set (header esg_csv) then Inl (KeyError ''totalEsg'')
      else case to_numeric (map esg_row.totalEsg (records esg_csv)) of
        Inl e \<Rightarrow> Inl e
      | Inr nums \<Rightarrow>
          let esg_df = esg_csv\<lparr>records := map (\<lambda>(r, v). r\<lparr>totalEsg := v\<rparr>)
                                                (zip (records esg_csv) nums)\<rparr>
          in if ''Symbol'' \<notin> set (header esg_df) then Inl (KeyError ''Symbol'')
          else if ''Full Name'' \<notin> set (header esg_df) then Inl (KeyError ''Full Name'')
          else
            let ticker_to_name = dict_zip (map esg_row.Symbol (records esg_df))
                                          (map esg_row.Full_Name (records esg_df))
            in case Date_column stocks_csv of
                 None \<Rightarrow> Inl (KeyError ''Date'')
               | Some ds \<Rightarrow>
                   (case to_datetime ds of
                      Inl e \<Rightarrow> Inl e
                    | Inr dates \<Rightarrow>
                        (case melt dates (value_columns stocks_csv) of
                           Inl e \<Rightarrow> Inl e
                         | Inr adjusted_stocks_df \<Rightarrow>
                             Inr \<lparr>esg = esg_df,
                                  stocks = List.map_filter
                                    (\<lambda>(d, sym, p). map_option
                                       (\<lambda>name. \<lparr>Date = d, Symbol = sym, Price = p,
                                                Full_Name = name\<rparr>)
                                       (ticker_to_name sym))
                                    adjusted_stocks_df\<rparr>)))"

section \<open>Classification (esgstocks_api.py)\<close>

text \<open>
  \<^verbatim>\<open>
  def classify_esg(esg_score):
      if esg_score > 30: return "High ESG"
      elif esg_score >= 20: return "Medium ESG"
      return "Low ESG"
  \<close>
\<close>

definition classify_esg :: "cell \<Rightarrow> error + string" where
  "classify_esg esg_score =
     (case py_gt esg_score 30 of
        Inl e \<Rightarrow> Inl e
      | Inr True \<Rightarrow> Inr ''High ESG''
      | Inr False \<Rightarrow>
          (case py_ge esg_score 20 of
             Inl e \<Rightarrow> Inl e
           | Inr True \<Rightarrow> Inr ''Medium ESG''
           | Inr False \<Rightarrow> Inr ''Low ESG''))"

text \<open>
  \<^verbatim>\<open>
  def classify_biz_risk(biz_risk):
      if biz_risk <= 3: return "Low Business Risk"
      elif biz_risk <= 6: return "Medium Business Risk"
      return "High Business Risk"
  \<close>
\<close>

definition classify_biz_risk :: "cell \<Rightarrow> error + string" where
  "classify_biz_risk biz_risk =
     (case py_le biz_risk 3 of
        Inl e \<Rightarrow> Inl e
      | Inr True \<Rightarrow> Inr ''Low Business Risk''
      | Inr False \<Rightarrow>
          (case py_le biz_risk 6 of
             Inl e \<Rightarrow> Inl e
           | Inr True \<Rightarrow> Inr ''Medium Business Risk''
           | Inr False \<Rightarrow> Inr ''High Business Risk''))"

section \<open>Price trends (extract_stock_price_trends)\<close>

text \<open>
  \<^verbatim>\<open>
  def extract_stock_price_trends(self, company_names, start_date = None, end_date = None):
      fltr_stocks_df = self.stocks[self.stocks["Full Name"].isin(company_names)].copy()
      if start_date:
          fltr_stocks_df = fltr_stocks_df[fltr_stocks_df["Date"] >= pd.to_datetime(start_date)]
      if end_date:
          fltr_stocks_df = fltr_stocks_df[fltr_stocks_df["Date"] <= pd.to_datetime(end_date)]
      return fltr_stocks_df[["Date", "Full Name", "Price"]].sort_values(["Full Name", "Date"])
  \<close>
  A date given is always true in the test \<open>if start_date\<close>, so only \<open>None\<close> skips a filter.
  The result has the three columns (Date, Full Name, Price). Names are ordered as Python
  orders strings, character by character; \<open>sort_values\<close> on several columns is stable,
  as \<open>sort_key\<close> is.
\<close>

type_synonym trend_row = "int \<times> string \<times> real option"

definition trend_key :: "trend_row \<Rightarrow> string \<times> int" where
  "trend_key = (\<lambda>(d, name, p). (name, d))"

definition extract_stock_price_trends ::
  "api \<Rightarrow> string list \<Rightarrow> int option \<Rightarrow> int option \<Rightarrow> trend_row list" where
  "extract_stock_price_trends self company_names start_date end_date =
     (let fltr0 = filter (\<lambda>r. stock_row.Full_Name r \<in> set company_names) (stocks self);
          fltr1 = (case start_date of None \<Rightarrow> fltr0
                   | Some s \<Rightarrow> filter (\<lambda>r. Date r \<ge> s) fltr0);
          fltr2 = (case end_date of None \<Rightarrow> fltr1
                   | Some e \<Rightarrow> filter (\<lambda>r. Date r \<le> e) fltr1)
      in sort_key trend_key
           (map (\<lambda>r. (Date r, stock_row.Full_Name r, Price r)) fltr2))"

section \<open>Return analysis (analyze_esg_vs_stock_returns)\<close>

text \<open>\<open>Series.apply(f)\<close>: \<open>f\<close> on each element in turn; the first exception ends the call.\<close>

fun series_apply :: "('a \<Rightarrow> error + 'b) \<Rightarrow> 'a list \<Rightarrow> error + 'b list" where
  "series_apply f [] = Inr []"
| "series_apply f (x # xs) =
     (case f x of
        Inl e \<Rightarrow> Inl e
      | Inr y \<Rightarrow> (case series_apply f xs of Inl e \<Rightarrow> Inl e | Inr ys \<Rightarrow> Inr (y # ys)))"

text \<open>
  \<open>groupby("Full Name")\<close>: one group per name that occurs, the groups in sorted order of
  the names, the rows of a group in their order in the frame.
\<close>

definition groupby_Full_Name :: "trend_row list \<Rightarrow> (string \<times> trend_row list) list" where
  "groupby_Full_Name df =
     map (\<lambda>name. (name, filter (\<lambda>(d, n, p). n = name) df))
         (sort (remdups (map (\<lambda>(d, n, p). n) df)))"

text \<open>
  The aggregations "first" and "last" of a group skip missing values: they give the first
  and the last price that is not NaN, and NaN when the group has none.
\<close>

definition agg_first :: "real option list \<Rightarrow> real option" where
  "agg_first ps = (case filter (\<lambda>p. p \<noteq> None) ps of [] \<Rightarrow> None | p # _ \<Rightarrow> p)"

definition agg_last :: "real option list \<Rightarrow> real option" where
  "agg_last ps = (case rev (filter (\<lambda>p. p \<noteq> None) ps) of [] \<Rightarrow> None | p # _ \<Rightarrow> p)"

text \<open>
  \<open>(end_price - start_price) / start_price * 100\<close> on floats. The result \<open>None\<close> stands
  for a float that is not a finite number: NaN when a price is missing, and NaN or an
  infinity when the start price is zero (dividing a float column by zero does not raise).
\<close>

fun stock_return :: "real option \<Rightarrow> real option \<Rightarrow> real option" where
  "stock_return (Some start_price) (Some end_price) =
     (if start_price = 0 then None
      else Some ((end_price - start_price) / start_price * 100))"
| "stock_return _ _ = None"

record return_row =
  Full_Name :: string
  totalEsg :: cell
  Stock_Return :: "real option"
  Business_Risk_Level :: string

text \<open>
  \<^verbatim>\<open>
  def analyze_esg_vs_stock_returns(self, company_names, start_date, end_date, biz_risks = None):
      fltr_esg_df = self.esg[self.esg["Full Name"].isin(company_names)].copy()
      fltr_esg_df["Business Risk Level"] = fltr_esg_df["overallRisk"].apply(self.classify_biz_risk)
      if biz_risks:
          fltr_esg_df = fltr_esg_df[fltr_esg_df["Business Risk Level"].isin(biz_risks)]
      stock_prices_df = self.extract_stock_price_trends(fltr_esg_df["Full Name"].tolist(),
                                                        start_date, end_date)
      grouped_prices = stock_prices_df.groupby("Full Name")
      stock_returns_df = grouped_prices.agg(start_price = ("Price", "first"),
                                            end_price = ("Price", "last"))
      stock_returns_df["Stock Return"] = ((stock_returns_df["end_price"] -
                                           stock_returns_df["start_price"]) /
                                          stock_returns_df["start_price"] * 100)
      stock_returns_df.reset_index(inplace = True)
      merged_df = pd.merge(fltr_esg_df, stock_returns_df, on = "Full Name", how = "inner")
      return merged_df[["Full Name", "totalEsg", "Stock Return", "Business Risk Level"]]
  \<close>
  The three steps after the classification are named on their own. An ESG row travels
  with its "Business Risk Level" as a pair.
\<close>

text \<open>\<open>if biz_risks: ...isin(biz_risks)\<close>: filters only for a list that is not empty.\<close>

definition isin_biz_risks ::
  "string list option \<Rightarrow> (esg_row \<times> string) list \<Rightarrow> (esg_row \<times> string) list" where
  "isin_biz_risks biz_risks fltr_esg_df =
     (case biz_risks of
        None \<Rightarrow> fltr_esg_df
      | Some [] \<Rightarrow> fltr_esg_df
      | Some risks \<Rightarrow> filter (\<lambda>(r, level). level \<in> set risks) fltr_esg_df)"

text \<open>The grouping, the two aggregations and the "Stock Return" column.\<close>

definition stock_returns :: "trend_row list \<Rightarrow> (string \<times> real option) list" where
  "stock_returns stock_prices_df =
     map (\<lambda>(name, group).
            let prices = map (\<lambda>(d, n, p). p) group
            in (name, stock_return (agg_first prices) (agg_last prices)))
         (groupby_Full_Name stock_prices_df)"

text \<open>
  \<open>pd.merge(..., on = "Full Name", how = "inner")\<close> and the final choice of columns: the
  ESG rows in their order, each paired with every return row of the same name.
\<close>

definition merge_on_Full_Name ::
  "(esg_row \<times> string) list \<Rightarrow> (string \<times> real option) list \<Rightarrow> return_row list" where
  "merge_on_Full_Name fltr_esg_df stock_returns_df =
     concat (map (\<lambda>(r, level).
                    map (\<lambda>(name, ret).
                           \<lparr>Full_Name = esg_row.Full_Name r,
                            totalEsg = esg_row.totalEsg r,
                            Stock_Return = ret,
                            Business_Risk_Level = level\<rparr>)
                        (filter (\<lambda>(name, ret). name = esg_row.Full_Name r) stock_returns_df))
                 fltr_esg_df)"

definition analyze_esg_vs_stock_returns ::
  "api \<Rightarrow> string list \<Rightarrow> int option \<Rightarrow> int option \<Rightarrow> string list option
     \<Rightarrow> error + return_row list" where
  "analyze_esg_vs_stock_returns self company_names start_date end_date biz_risks =
     (if ''Full Name'' \<notin> set (header (esg self)) then Inl (KeyError ''Full Name'')
      else
        let fltr_esg_df = filter (\<lambda>r. esg_row.Full_Name r \<in> set company_names)
                                 (records (esg self))
        in if ''overallRisk'' \<notin> set (header (esg self)) then Inl (KeyError ''overallRisk'')
        else case series_apply classify_biz_risk (map overallRisk fltr_esg_df) of
          Inl e \<Rightarrow> Inl e
        | Inr levels \<Rightarrow>
            let fltr_leveled = isin_biz_risks biz_risks (zip fltr_esg_df levels);
                stock_prices_df = extract_stock_price_trends self
                                    (map (\<lambda>(r, level). esg_row.Full_Name r) fltr_leveled)
                                    start_date end_date;
                stock_returns_df = stock_returns stock_prices_df
            in if ''totalEsg'' \<notin> set (header (esg self)) then Inl (KeyError ''totalEsg'')
               else Inr (merge_on_Full_Name fltr_leveled stock_returns_df))"

section \<open>Sankey data (sankey.py)\<close>

text \<open>
  A frame of the Sankey library: its column names and its rows, a row giving the cell of
  every column. A row is read at a name only after the name was found among the columns;
  what a row gives at other names is of no account.
\<close>

record frame =
  columns :: "string list"
  rows :: "(string \<Rightarrow> cell) list"

text \<open>\<open>df[name] = ...\<close>: the column is overwritten in place, or appended when it is new.\<close>

definition set_column :: "frame \<Rightarrow> string \<Rightarrow> ((string \<Rightarrow> cell) \<Rightarrow> cell) \<Rightarrow> frame" where
  "set_column df name f =
     \<lparr>columns = (if name \<in> set (columns df) then columns df else columns df @ [name]),
      rows = map (\<lambda>r. r(name := f r)) (rows df)\<rparr>"

text \<open>
  \<^verbatim>\<open>
      pair_df = df[[col1, col2, "value"]]
      pair_df.columns = ["src", "targ", "value"]
  \<close>
\<close>

definition pair_df :: "frame \<Rightarrow> string \<Rightarrow> string \<Rightarrow> error + (string \<Rightarrow> cell) list" where
  "pair_df df col1 col2 =
     (if col1 \<notin> set (columns df) then Inl (KeyError col1)
      else if col2 \<notin> set (columns df) then Inl (KeyError col2)
      else if ''value'' \<notin> set (columns df) then Inl (KeyError ''value'')
      else Inr (map (\<lambda>r. (\<lambda>name. NaN 0)(''src'' := r col1, ''targ'' := r col2,
                                              ''value'' := r ''value''))
                    (rows df)))"

text \<open>The loop over \<open>zip(cols, cols[1:])\<close> that fills \<open>stacked_dfs\<close>.\<close>

fun stacked_dfs :: "frame \<Rightarrow> (string \<times> string) list \<Rightarrow> error + (string \<Rightarrow> cell) list list" where
  "stacked_dfs df [] = Inr []"
| "stacked_dfs df ((col1, col2) # pairs) =
     (case pair_df df col1 col2 of
        Inl e \<Rightarrow> Inl e
      | Inr p \<Rightarrow> (case stacked_dfs df pairs of Inl e \<Rightarrow> Inl e | Inr ps \<Rightarrow> Inr (p # ps)))"

text \<open>
  \<^verbatim>\<open>
  def stack_columns(df, cols):
      stacked_dfs = []
      for col1, col2 in zip(cols, cols[1:]):
          pair_df = df[[col1, col2, "value"]]
          pair_df.columns = ["src", "targ", "value"]
          stacked_dfs.append(pair_df)
      stacked_df = pd.concat(stacked_dfs, ignore_index = True)
      return stacked_df
  \<close>
  \<open>pd.concat\<close> of an empty list raises ValueError.
\<close>

definition stack_columns :: "frame \<Rightarrow> string list \<Rightarrow> error + frame" where
  "stack_columns df cols =
     (case stacked_dfs df (zip cols (tl cols)) of
        Inl e \<Rightarrow> Inl e
      | Inr [] \<Rightarrow> Inl ValueError
      | Inr dfs \<Rightarrow> Inr \<lparr>columns = [''src'', ''targ'', ''value''], rows = concat dfs\<rparr>)"

text \<open>
  \<open>Series.map(lc_map)\<close>: the code of a label, NaN for a value that is no key (a new
  float, whose identity is of no account here).
\<close>

definition series_map :: "(cell \<rightharpoonup> nat) \<Rightarrow> cell \<Rightarrow> cell" where
  "series_map lc_map v = (case lc_map v of None \<Rightarrow> NaN 0 | Some code \<Rightarrow> Num (real code))"

text \<open>
  \<^verbatim>\<open>
  def code_mapping(df, src, targ):
      labels = list(set(df[src]).union(set(df[targ])))
      codes = list(range(len(labels)))
      lc_map = dict(zip(labels, codes))
      df[src] = df[src].map(lc_map)
      df[targ] = df[targ].map(lc_map)
      return df, labels
  \<close>
  The order in which \<open>list\<close> enumerates a set is not fixed by Python: it is the parameter
  \<open>to_list\<close>. The frame returned is the frame given, changed in place.

  \<open>Series.map\<close> with a dictionary makes a Series indexed by the keys and looks the values
  up in that index; it raises InvalidIndexError when the index is not unique. pandas takes
  all NaN as equal, so this happens exactly when two NaN objects are among the labels. It
  happens in the first call of \<open>map\<close>, before the frame is changed.
\<close>

fun is_NaN :: "cell \<Rightarrow> bool" where
  "is_NaN (NaN i) = True"
| "is_NaN c = False"

definition code_mapping ::
  "(cell set \<Rightarrow> cell list) \<Rightarrow> frame \<Rightarrow> string \<Rightarrow> string \<Rightarrow> error + frame \<times> cell list" where
  "code_mapping to_list df src targ =
     (if src \<notin> set (columns df) then Inl (KeyError src)
      else if targ \<notin> set (columns df) then Inl (KeyError targ)
      else
        let labels = to_list (set (map (\<lambda>r. r src) (rows df)) \<union> set (map (\<lambda>r. r targ) (rows df)));
            codes = [0..<length labels];
            lc_map = dict_zip labels codes
        in if 2 \<le> length (filter is_NaN labels) then Inl InvalidIndexError
           else
             let df1 = set_column df src (\<lambda>r. series_map lc_map (r src));
                 df2 = set_column df1 targ (\<lambda>r. series_map lc_map (r targ))
             in Inr (df2, labels))"

text \<open>
  \<^verbatim>\<open>
  def make_sankey(df, *cols, vals = None, title = None, **kwargs):
      assert len(cols) >= 2, "You need at least two columns to create a Sankey diagram."
      if vals:
          df["value"] = df[vals]
      else:
          df["value"] = 1
      df = stack_columns(df, cols)
      df, labels = code_mapping(df, "src", "targ")
      ...
      link = {"source": df["src"], "target": df["targ"], "value": df["value"], "color": link_colors}
      node = {"label": labels, "pad": padding, "thickness": thickness, "color": node_colors}
  \<close>
  The frame \<open>df\<close> is the caller's object: the assignment to \<open>df["value"]\<close> writes into
  it, while \<open>df = stack_columns(df, cols)\<close> binds the local name to a new frame. So the
  model returns the caller's frame as the call leaves it, together with the outcome. The
  figure keeps the link and node data; colours, title and layout are left out. A name
  given for \<open>vals\<close> counts in \<open>if vals\<close> unless it is the empty string.
\<close>

record figure =
  link_source :: "cell list"
  link_target :: "cell list"
  link_value :: "cell list"
  node_label :: "cell list"

definition make_sankey ::
  "(cell set \<Rightarrow> cell list) \<Rightarrow> frame \<Rightarrow> string list \<Rightarrow> string option
     \<Rightarrow> frame \<times> (error + figure)" where
  "make_sankey to_list df cols vals =
     (if \<not> length cols \<ge> 2 then (df, Inl AssertionError)
      else
        case (case vals of
                None \<Rightarrow> Inr (set_column df ''value'' (\<lambda>r. Num 1))
              | Some v \<Rightarrow>
                  if v = [] then Inr (set_column df ''value'' (\<lambda>r. Num 1))
                  else if v \<notin> set (columns df) then Inl (KeyError v)
                  else Inr (set_column df ''value'' (\<lambda>r. r v))) of
          Inl e \<Rightarrow> (df, Inl e)
        | Inr caller_df \<Rightarrow>
            (caller_df,
             case stack_columns caller_df cols of
               Inl e \<Rightarrow> Inl e
             | Inr stacked_df \<Rightarrow>
                 (case code_mapping to_list stacked_df ''src'' ''targ'' of
                    Inl e \<Rightarrow> Inl e
                  | Inr (coded_df, labels) \<Rightarrow>
                      Inr \<lparr>link_source = map (\<lambda>r. r ''src'') (rows coded_df),
                           link_target = map (\<lambda>r. r ''targ'') (rows coded_df),
                           link_value = map (\<lambda>r. r ''value'') (rows coded_df),
                           node_label = labels\<rparr>)))"

section \<open>Example tables\<close>

text \<open>
  Two companies with ratings, and a price file of three days with a third ticker that has
  no rating. The second company has no price on the first day.
\<close>

definition all_columns :: "string list" where
  "all_columns = [''Symbol'', ''Full Name'', ''totalEsg'', ''environmentScore'',
                  ''socialScore'', ''governanceScore'', ''overallRisk'']"

definition acme :: esg_row where
  "acme = \<lparr>esg_row.Symbol = ''ACM'', esg_row.Full_Name = ''Acme'', esg_row.totalEsg = Num 31,
            environmentScore = Num 10, socialScore = Num 11, governanceScore = Num 10,
            overallRisk = Num 3\<rparr>"

definition bolt :: esg_row where
  "bolt = \<lparr>esg_row.Symbol = ''BLT'', esg_row.Full_Name = ''Bolt'', esg_row.totalEsg = Num 20,
            environmentScore = Num 5, socialScore = Num 8, governanceScore = Num 7,
            overallRisk = Num 7\<rparr>"

definition esg_example :: esg_frame where
  "esg_example = \<lparr>header = all_columns, records = [acme, bolt]\<rparr>"

definition prices_example :: price_frame where
  "prices_example =
     \<lparr>Date_column = Some [Parsable 1, Parsable 2, Parsable 3],
      value_columns = [(''ACM'', [Some 100, Some 110, Some 121]),
                       (''ZZZ'', [Some 1, Some 2, Some 3]),
                       (''BLT'', [None, Some 50, Some 55])]\<rparr>"

definition api_example :: api where
  "api_example =
     \<lparr>esg = esg_example,
      stocks = [\<lparr>stock_row.Date = 1, stock_row.Symbol = ''ACM'', stock_row.Price = Some 100, stock_row.Full_Name = ''Acme''\<rparr>,
                \<lparr>stock_row.Date = 2, stock_row.Symbol = ''ACM'', stock_row.Price = Some 110, stock_row.Full_Name = ''Acme''\<rparr>,
                \<lparr>stock_row.Date = 3, stock_row.Symbol = ''ACM'', stock_row.Price = Some 121, stock_row.Full_Name = ''Acme''\<rparr>,
                \<lparr>stock_row.Date = 1, stock_row.Symbol = ''BLT'', stock_row.Price = None, stock_row.Full_Name = ''Bolt''\<rparr>,
                \<lparr>stock_row.Date = 2, stock_row.Symbol = ''BLT'', stock_row.Price = Some 50, stock_row.Full_Name = ''Bolt''\<rparr>,
                \<lparr>stock_row.Date = 3, stock_row.Symbol = ''BLT'', stock_row.Price = Some 55, stock_row.Full_Name = ''Bolt''\<rparr>]\<rparr>"




text \<open>
  A frame as the dashboard passes one to the Sankey library, the same frame with a
  "value" column, a frame of three links over the labels X, Y, Z, and one order in which
  the three labels may be listed.
\<close>

definition flows_example :: frame where
  "flows_example =
     \<lparr>columns = [''Company'', ''ESG Dimension'', ''ESG Level'', ''Score''],
      rows = [(\<lambda>name. NaN 0)(''Company'' := Txt ''Acme'', ''ESG Dimension'' := Txt ''Social'',
                             ''ESG Level'' := Txt ''High ESG'', ''Score'' := Num 11),
              (\<lambda>name. NaN 0)(''Company'' := Txt ''Bolt'', ''ESG Dimension'' := Txt ''Social'',
                             ''ESG Level'' := Txt ''Medium ESG'', ''Score'' := Num 8)]\<rparr>"

definition valued_example :: frame where
  "valued_example = set_column flows_example ''value'' (\<lambda>r. r ''Score'')"

definition links_example :: frame where
  "links_example =
     \<lparr>columns = [''src'', ''targ'', ''value''],
      rows = [(\<lambda>name. NaN 0)(''src'' := Txt ''X'', ''targ'' := Txt ''Y'', ''value'' := Num 1),
              (\<lambda>name. NaN 0)(''src'' := Txt ''Y'', ''targ'' := Txt ''Z'', ''value'' := Num 1),
              (\<lambda>name. NaN 0)(''src'' := Txt ''X'', ''targ'' := Txt ''Z'', ''value'' := Num 1)]\<rparr>"

definition order_example :: "cell set \<Rightarrow> cell list" where
  "order_example S = [Txt ''Z'', Txt ''X'', Txt ''Y'']"

text \<open>
  A frame of three links whose source column is a float column with two missing cells,
  hence two NaN objects, and one order in which Python may list its six labels.
\<close>

definition links_gaps :: frame where
  "links_gaps =
     \<lparr>columns = [''src'', ''targ'', ''value''],
      rows = [(\<lambda>name. NaN 0)(''src'' := Num 1, ''targ'' := Num 2, ''value'' := Num 1),
              (\<lambda>name. NaN 0)(''src'' := NaN 1, ''targ'' := Num 3, ''value'' := Num 1),
              (\<lambda>name. NaN 0)(''src'' := NaN 2, ''targ'' := Num 4, ''value'' := Num 1)]\<rparr>"

definition order_gaps :: "cell set \<Rightarrow> cell list" where
  "order_gaps S = [Num 1, NaN 1, NaN 2, Num 2, Num 3, Num 4]"

text \<open>The rows the return analysis gives for the two example companies over all dates.\<close>

definition acme_return :: return_row where
  "acme_return = \<lparr>Full_Name = ''Acme'', totalEsg = Num 31, Stock_Return = Some 21,
                   Business_Risk_Level = ''Low Business Risk''\<rparr>"

definition bolt_return :: return_row where
  "bolt_return = \<lparr>Full_Name = ''Bolt'', totalEsg = Num 20, Stock_Return = Some 10,
                   Business_Risk_Level = ''High Business Risk''\<rparr>"

section \<open>Notions of the specification\<close>

text \<open>
  A date lies in the inclusive range from \<open>start_date\<close> to \<open>end_date\<close>; a bound that is
  not given restricts nothing on its side.
\<close>

definition in_date_range :: "int option \<Rightarrow> int option \<Rightarrow> int \<Rightarrow> bool" where
  "in_date_range start_date end_date d =
     ((case start_date of None \<Rightarrow> True | Some s \<Rightarrow> s \<le> d) \<and>
      (case end_date of None \<Rightarrow> True | Some e \<Rightarrow> d \<le> e))"

text \<open>
  The filtered price series of a company: the prices of its rows in the range, in
  chronological order.
\<close>

definition company_series :: "api \<Rightarrow> string \<Rightarrow> int option \<Rightarrow> int option \<Rightarrow> real option list" where
  "company_series self name start_date end_date =
     map Price (sort_key Date
       (filter (\<lambda>r. stock_row.Full_Name r = name \<and> in_date_range start_date end_date (Date r))
               (stocks self)))"

text \<open>
  The return as the specification words it: (last price - first price) / first price * 100
  with the first and the last price of the series.
\<close>

definition first_last_return :: "real option list \<Rightarrow> real option" where
  "first_last_return series =
     (case series of [] \<Rightarrow> None | p # ps \<Rightarrow> stock_return (hd series) (last series))"

text \<open>A risk level passes the filter: no list of levels is given, or it is empty, or it has the level.\<close>

definition passes_biz_risks :: "string list option \<Rightarrow> string \<Rightarrow> bool" where
  "passes_biz_risks biz_risks level =
     (case biz_risks of None \<Rightarrow> True | Some risks \<Rightarrow> risks = [] \<or> level \<in> set risks)"

text \<open>\<open>list(s)\<close> lists every element of the set \<open>s\<close> once, in some order.\<close>

definition enumerates :: "('a set \<Rightarrow> 'a list) \<Rightarrow> 'a set \<Rightarrow> bool" where
  "enumerates to_list S = (set (to_list S) = S \<and> distinct (to_list S))"

section \<open>Properties of the classification\<close>

lemma classify_esg_Num:
  "classify_esg (Num x) =
     Inr (if x > 30 then ''High ESG'' else if x \<ge> 20 then ''Medium ESG'' else ''Low ESG'')"
  by (simp add: classify_esg_def)

lemma classify_biz_risk_Num:
  "classify_biz_risk (Num x) =
     Inr (if x \<le> 3 then ''Low Business Risk''
          else if x \<le> 6 then ''Medium Business Risk'' else ''High Business Risk'')"
  by (simp add: classify_biz_risk_def)

text \<open>
  C3. \<open>classify_esg\<close> is total on numeric scores: every number gets exactly one of the
  three labels (never an error), decided by the thresholds 30 and 20; a score of 31 is
  "High ESG", 20 is "Medium ESG" and 19.9 is "Low ESG".
\<close>

theorem classify_esg_total:
  "(\<exists>l. classify_esg (Num s) = Inr l \<and> l \<in> {''High ESG'', ''Medium ESG'', ''Low ESG''}
        \<and> (l = ''High ESG'') = (s > 30)
        \<and> (l = ''Medium ESG'') = (20 \<le> s \<and> s \<le> 30)
        \<and> (l = ''Low ESG'') = (s < 20))
   \<and> classify_esg (Num 31) = Inr ''High ESG''
   \<and> classify_esg (Num 20) = Inr ''Medium ESG''
   \<and> classify_esg (Num (199 / 10)) = Inr ''Low ESG''"
  by (simp add: classify_esg_Num)

text \<open>
  C4, with the labels the code returns. \<open>classify_biz_risk\<close> maps every integer risk
  score to one of three levels, "Low Business Risk" for scores up to 3, "Medium Business
  Risk" for scores up to 6 and "High Business Risk" above 6; so 3 is "Low Business Risk",
  4 is "Medium Business Risk" and 7 is "High Business Risk".
\<close>

theorem classify_biz_risk_labels:
  "classify_biz_risk (Num (of_int n)) =
     Inr (if n \<le> 3 then ''Low Business Risk''
          else if n \<le> 6 then ''Medium Business Risk'' else ''High Business Risk'')
   \<and> classify_biz_risk (Num 3) = Inr ''Low Business Risk''
   \<and> classify_biz_risk (Num 4) = Inr ''Medium Business Risk''
   \<and> classify_biz_risk (Num 7) = Inr ''High Business Risk''"
proof -
  have "(real_of_int n \<le> 3) = (n \<le> 3)" "(real_of_int n \<le> 6) = (n \<le> 6)"
    by linarith+
  then show ?thesis
    by (simp add: classify_biz_risk_Num)
qed

text \<open>The label of the score 3 is not the bare word "Low".\<close>

theorem classify_biz_risk_low_counterexample:
  "classify_biz_risk (Num 3) \<noteq> Inr ''Low''"
  by (simp add: classify_biz_risk_Num)

section \<open>Properties of the price trends\<close>

lemma extract_alt:
  "extract_stock_price_trends self names s e =
     sort_key trend_key (map (\<lambda>r. (Date r, stock_row.Full_Name r, Price r))
       (filter (\<lambda>r. stock_row.Full_Name r \<in> set names \<and> in_date_range s e (Date r))
               (stocks self)))"
  by (cases s; cases e)
     (simp_all add: extract_stock_price_trends_def in_date_range_def conj_commute
        conj_left_commute)

lemma sorted_wrt_trend:
  "sorted (map trend_key xs) \<Longrightarrow>
   sorted_wrt (\<lambda>(d1, n1, p1) (d2, n2, p2). n1 < n2 \<or> (n1 = n2 \<and> d1 \<le> d2)) xs"
  by (induction xs) (auto simp: trend_key_def less_eq_prod_def)

text \<open>
  C8. \<open>extract_stock_price_trends\<close> returns exactly the price rows (with multiplicity)
  whose company name is among the given names and whose date lies in the inclusive range,
  a missing bound restricting nothing; and the rows come ordered by company name, rows of
  one company by date.
\<close>

theorem extract_stock_price_trends_filters_and_sorts:
  "mset (extract_stock_price_trends self names start_date end_date) =
     mset (map (\<lambda>r. (Date r, stock_row.Full_Name r, Price r))
       (filter (\<lambda>r. stock_row.Full_Name r \<in> set names
                     \<and> in_date_range start_date end_date (Date r))
               (stocks self)))
   \<and> sorted_wrt (\<lambda>(d1, n1, p1) (d2, n2, p2). n1 < n2 \<or> (n1 = n2 \<and> d1 \<le> d2))
        (extract_stock_price_trends self names start_date end_date)"
  by (simp add: extract_alt sorted_wrt_trend)

text \<open>The example: the two companies up to day 2.\<close>

theorem extract_stock_price_trends_filters_and_sorts_witness:
  "mset (extract_stock_price_trends api_example [''Bolt'', ''Acme''] None (Some 2))
     = mset [(1, ''Acme'', Some 100), (2, ''Acme'', Some 110), (1, ''Bolt'', None),
             (2, ''Bolt'', Some 50)]
   \<and> sorted_wrt (\<lambda>(d1, n1, p1) (d2, n2, p2). n1 < n2 \<or> (n1 = n2 \<and> d1 \<le> d2))
        (extract_stock_price_trends api_example [''Bolt'', ''Acme''] None (Some 2))"
  using extract_stock_price_trends_filters_and_sorts
          [of api_example "[''Bolt'', ''Acme'']" None "Some 2"]
  by (simp add: api_example_def in_date_range_def)

text \<open>
  The rows of one company in the result are its rows in range, in the order of their
  dates (rows of equal date in the order of the table).
\<close>

lemma insort_key_map:
  "insort_key f (g x) (map g xs) = map g (insort_key (\<lambda>a. f (g a)) x xs)"
  by (induction xs) auto

lemma sort_key_map: "sort_key f (map g xs) = map g (sort_key (\<lambda>a. f (g a)) xs)"
  by (induction xs) (auto simp: insort_key_map)

lemma insort_key_cong_on:
  "(\<And>y. y \<in> set xs \<Longrightarrow> (f x \<le> f y) = (g x \<le> g y))
   \<Longrightarrow> insort_key f x xs = insort_key g x xs"
  by (induction xs) auto

lemma sort_key_cong_on:
  "(\<And>x y. x \<in> set xs \<Longrightarrow> y \<in> set xs \<Longrightarrow> (f x \<le> f y) = (g x \<le> g y))
   \<Longrightarrow> sort_key f xs = sort_key g xs"
proof (induction xs)
  case Nil
  then show ?case by simp
next
  case (Cons a xs)
  have "sort_key f xs = sort_key g xs"
    using Cons by simp
  moreover have "insort_key f a (sort_key g xs) = insort_key g a (sort_key g xs)"
    by (rule insort_key_cong_on) (simp add: Cons.prems)
  ultimately show ?case by simp
qed

lemma extract_company:
  assumes "c \<in> set names"
  shows "filter (\<lambda>(d, n, p). n = c) (extract_stock_price_trends self names s e) =
     map (\<lambda>r. (Date r, stock_row.Full_Name r, Price r))
       (sort_key Date (filter (\<lambda>r. stock_row.Full_Name r = c \<and> in_date_range s e (Date r))
                              (stocks self)))"
proof -
  let ?proj = "\<lambda>r. (Date r, stock_row.Full_Name r, Price r)"
  let ?ys = "filter (\<lambda>r. stock_row.Full_Name r = c \<and> in_date_range s e (Date r)) (stocks self)"
  have "filter (\<lambda>(d, n, p). n = c) (extract_stock_price_trends self names s e) =
        sort_key trend_key (map ?proj ?ys)"
    using assms
    by (auto simp: extract_alt filter_sort filter_map o_def
          intro!: arg_cong[where f="sort_key trend_key"] arg_cong[where f="map ?proj"]
                  filter_cong)
  also have "\<dots> = map ?proj (sort_key (\<lambda>r. trend_key (?proj r)) ?ys)"
    by (rule sort_key_map)
  also have "sort_key (\<lambda>r. trend_key (?proj r)) ?ys = sort_key Date ?ys"
    by (rule sort_key_cong_on) (auto simp: trend_key_def less_eq_prod_def)
  finally show ?thesis .
qed

section \<open>Properties of the return analysis\<close>

lemma series_apply_Inr:
  "series_apply f xs = Inr ys \<Longrightarrow> list_all2 (\<lambda>x y. f x = Inr y) xs ys"
  by (induction xs arbitrary: ys) (auto split: sum.splits)


lemma isin_biz_risks_subset: "set (isin_biz_risks risks xs) \<subseteq> set xs"
  by (auto simp: isin_biz_risks_def split: option.splits list.splits)

lemma stock_returns_iff:
  "(name, ret) \<in> set (stock_returns trs) \<longleftrightarrow>
     name \<in> set (map (\<lambda>(d, n, p). n) trs) \<and>
     ret = (let prices = map (\<lambda>(d, n, p). p) (filter (\<lambda>(d, n, p). n = name) trs)
            in stock_return (agg_first prices) (agg_last prices))"
  unfolding stock_returns_def groupby_Full_Name_def Let_def
  by (simp add: image_iff)

lemma merge_iff:
  "row \<in> set (merge_on_Full_Name lev rets) \<longleftrightarrow>
     (\<exists>r level ret. (r, level) \<in> set lev \<and> (esg_row.Full_Name r, ret) \<in> set rets \<and>
        row = \<lparr>Full_Name = esg_row.Full_Name r, totalEsg = esg_row.totalEsg r,
                Stock_Return = ret, Business_Risk_Level = level\<rparr>)"
  unfolding merge_on_Full_Name_def
  by (simp add: image_iff) fast

lemma valid_prices: "filter (\<lambda>p. p \<noteq> None) ps = map Some (List.map_filter id ps)"
  by (induction ps) (auto simp: List.map_filter_def)

lemma agg_first_valid:
  "agg_first ps = (case List.map_filter id ps of [] \<Rightarrow> None | v # vs \<Rightarrow> Some v)"
  unfolding agg_first_def valid_prices by (simp split: list.splits)

lemma agg_last_valid:
  "agg_last ps = (if List.map_filter id ps = [] then None else Some (last (List.map_filter id ps)))"
  unfolding agg_last_def valid_prices
  by (cases "List.map_filter id ps" rule: rev_cases) (simp_all add: rev_map)


lemma group_prices:
  assumes "c \<in> set sel"
  shows "map (\<lambda>(d, n, p). p) (filter (\<lambda>(d, n, p). n = c) (extract_stock_price_trends self sel s e))
         = company_series self c s e"
  by (simp add: extract_company[OF assms] company_series_def o_def)

lemma group_nonempty:
  assumes "c \<in> set (map (\<lambda>(d, n, p). n) trs)"
  shows "map (\<lambda>(d, n, p). p) (filter (\<lambda>(d, n, p). n = c) trs) \<noteq> []"
  using assms by (auto simp: filter_empty_conv)

lemma analyze_Inr:
  assumes "analyze_esg_vs_stock_returns self names s e risks = Inr out"
  obtains levels where
    "series_apply classify_biz_risk
        (map overallRisk (filter (\<lambda>r. esg_row.Full_Name r \<in> set names) (records (esg self))))
      = Inr levels"
    "out = merge_on_Full_Name
             (isin_biz_risks risks
                (zip (filter (\<lambda>r. esg_row.Full_Name r \<in> set names) (records (esg self))) levels))
             (stock_returns (extract_stock_price_trends self
                (map (\<lambda>(r, level). esg_row.Full_Name r)
                   (isin_biz_risks risks
                      (zip (filter (\<lambda>r. esg_row.Full_Name r \<in> set names) (records (esg self)))
                           levels)))
                s e))"
  using assms
  by (auto simp: analyze_esg_vs_stock_returns_def Let_def split: if_splits sum.splits)

lemma analyze_row:
  assumes ok: "analyze_esg_vs_stock_returns self names s e risks = Inr out"
      and row: "row \<in> set out"
  shows "return_row.Full_Name row \<in> set names
       \<and> company_series self (return_row.Full_Name row) s e \<noteq> []
       \<and> Stock_Return row =
           stock_return (agg_first (company_series self (return_row.Full_Name row) s e))
                        (agg_last (company_series self (return_row.Full_Name row) s e))"
proof -
  let ?fltr = "filter (\<lambda>r. esg_row.Full_Name r \<in> set names) (records (esg self))"
  from ok obtain levels where
    out: "out = merge_on_Full_Name (isin_biz_risks risks (zip ?fltr levels))
             (stock_returns (extract_stock_price_trends self
                (map (\<lambda>(r, level). esg_row.Full_Name r) (isin_biz_risks risks (zip ?fltr levels)))
                s e))"
    by (rule analyze_Inr)
  let ?lev = "isin_biz_risks risks (zip ?fltr levels)"
  let ?sel = "map (\<lambda>(r, level). esg_row.Full_Name r) ?lev"
  let ?trs = "extract_stock_price_trends self ?sel s e"
  from row out obtain r level ret where
    rl: "(r, level) \<in> set ?lev" and
    ret: "(esg_row.Full_Name r, ret) \<in> set (stock_returns ?trs)" and
    row_eq: "row = \<lparr>Full_Name = esg_row.Full_Name r, totalEsg = esg_row.totalEsg r,
                     Stock_Return = ret, Business_Risk_Level = level\<rparr>"
    by (auto simp: merge_iff)
  have name: "return_row.Full_Name row = esg_row.Full_Name r"
    by (simp add: row_eq)
  from rl have "(r, level) \<in> set (zip ?fltr levels)"
    using isin_biz_risks_subset by blast
  then have "r \<in> set ?fltr"
    by (rule set_zip_leftD)
  then have in_names: "esg_row.Full_Name r \<in> set names"
    by simp
  from rl have sel: "esg_row.Full_Name r \<in> set ?sel"
    by force
  from ret have occurs: "esg_row.Full_Name r \<in> set (map (\<lambda>(d, n, p). n) ?trs)"
    and ret_eq: "ret = (let prices = map (\<lambda>(d, n, p). p)
                                       (filter (\<lambda>(d, n, p). n = esg_row.Full_Name r) ?trs)
                        in stock_return (agg_first prices) (agg_last prices))"
    by (simp_all only: stock_returns_iff)
  have prices: "map (\<lambda>(d, n, p). p) (filter (\<lambda>(d, n, p). n = esg_row.Full_Name r) ?trs)
                = company_series self (esg_row.Full_Name r) s e"
    by (rule group_prices[OF sel])
  have nonempty: "company_series self (esg_row.Full_Name r) s e \<noteq> []"
    using group_nonempty[OF occurs] prices by simp
  have "Stock_Return row = ret"
    by (simp add: row_eq)
  with ret_eq prices nonempty in_names name show ?thesis
    by (simp add: Let_def)
qed

lemma agg_all_valid:
  assumes "None \<notin> set ps" "ps \<noteq> []"
  shows "agg_first ps = hd ps" "agg_last ps = last ps"
proof -
  have "\<forall>p\<in>set ps. p \<noteq> None"
    using assms(1) by metis
  then have f: "filter (\<lambda>p. p \<noteq> None) ps = ps"
    by (rule filter_True)
  show "agg_first ps = hd ps"
    unfolding agg_first_def f using assms(2) by (cases ps) simp_all
  show "agg_last ps = last ps"
    unfolding agg_last_def f using assms(2) by (cases ps rule: rev_cases) simp_all
qed

lemma stock_return_valid:
  "stock_return (agg_first ps) (agg_last ps) =
     (let valid = List.map_filter id ps
      in if valid = [] \<or> hd valid = 0 then None
         else Some ((last valid - hd valid) / hd valid * 100))"
  by (cases "List.map_filter id ps") (simp_all add: agg_first_valid agg_last_valid Let_def)



lemma isin_biz_risks_iff:
  "(r, level) \<in> set (isin_biz_risks risks xs)
   \<longleftrightarrow> (r, level) \<in> set xs \<and> passes_biz_risks risks level"
  by (auto simp: isin_biz_risks_def passes_biz_risks_def split: option.splits list.splits)

lemma series_apply_zip:
  assumes "series_apply f (map g xs) = Inr ys" and "x \<in> set xs" and "f (g x) = Inr y"
  shows "(x, y) \<in> set (zip xs ys)"
proof -
  from series_apply_Inr[OF assms(1)]
  have all2: "list_all2 (\<lambda>a b. f a = Inr b) (map g xs) ys" .
  then have len: "length ys = length xs"
    by (auto dest: list_all2_lengthD)
  from assms(2) obtain i where i: "i < length xs" "xs ! i = x"
    by (auto simp: in_set_conv_nth)
  from all2 i(1) len have "f (map g xs ! i) = Inr (ys ! i)"
    by (auto simp: list_all2_conv_all_nth)
  with i assms(3) have "ys ! i = y"
    by simp
  with i len show ?thesis
    by (auto simp: in_set_zip)
qed

lemma group_occurs:
  "filter (\<lambda>(d, n, p). n = c) trs \<noteq> [] \<Longrightarrow> c \<in> set (map (\<lambda>(d, n, p). n) trs)"
  by (induction trs) (auto split: if_splits)

lemma analyze_complete:
  assumes ok: "analyze_esg_vs_stock_returns self names s e risks = Inr out"
      and r: "r \<in> set (records (esg self))" "esg_row.Full_Name r \<in> set names"
      and lvl: "classify_biz_risk (overallRisk r) = Inr level" "passes_biz_risks risks level"
      and ne: "company_series self (esg_row.Full_Name r) s e \<noteq> []"
  shows "\<exists>row\<in>set out. return_row.Full_Name row = esg_row.Full_Name r
           \<and> return_row.totalEsg row = esg_row.totalEsg r
           \<and> Business_Risk_Level row = level"
proof -
  let ?fltr = "filter (\<lambda>r. esg_row.Full_Name r \<in> set names) (records (esg self))"
  from ok obtain levels where
    lv: "series_apply classify_biz_risk (map overallRisk ?fltr) = Inr levels" and
    out: "out = merge_on_Full_Name (isin_biz_risks risks (zip ?fltr levels))
             (stock_returns (extract_stock_price_trends self
                (map (\<lambda>(r, level). esg_row.Full_Name r) (isin_biz_risks risks (zip ?fltr levels)))
                s e))"
    by (rule analyze_Inr)
  let ?lev = "isin_biz_risks risks (zip ?fltr levels)"
  let ?sel = "map (\<lambda>(r, level). esg_row.Full_Name r) ?lev"
  let ?trs = "extract_stock_price_trends self ?sel s e"
  from r have "r \<in> set ?fltr"
    by simp
  from series_apply_zip[OF lv this lvl(1)] lvl(2) have rl: "(r, level) \<in> set ?lev"
    by (simp add: isin_biz_risks_iff)
  then have sel: "esg_row.Full_Name r \<in> set ?sel"
    by force
  from group_prices[OF sel, of self s e] ne
  have "map (\<lambda>(d, n, p). p) (filter (\<lambda>(d, n, p). n = esg_row.Full_Name r) ?trs) \<noteq> []"
    by simp
  then have "filter (\<lambda>(d, n, p). n = esg_row.Full_Name r) ?trs \<noteq> []"
    by simp
  then have occurs: "esg_row.Full_Name r \<in> set (map (\<lambda>(d, n, p). n) ?trs)"
    by (rule group_occurs)
  let ?prices = "map (\<lambda>(d, n, p). p) (filter (\<lambda>(d, n, p). n = esg_row.Full_Name r) ?trs)"
  let ?ret = "stock_return (agg_first ?prices) (agg_last ?prices)"
  from occurs have "(esg_row.Full_Name r, ?ret) \<in> set (stock_returns ?trs)"
    by (simp only: stock_returns_iff Let_def simp_thms)
  with rl have "\<lparr>Full_Name = esg_row.Full_Name r, totalEsg = esg_row.totalEsg r,
                  Stock_Return = ?ret, Business_Risk_Level = level\<rparr> \<in> set out"
    unfolding out merge_iff by blast
  then show ?thesis
    by (rule rev_bexI) simp
qed

text \<open>
  C1, as the code has it. Every company that is selected, passes the business-risk filter
  and has a price row in the inclusive date range has a row in the result of
  \<open>analyze_esg_vs_stock_returns\<close>. For every row of the result the price series of its
  company in the range is not empty, and the reported Stock Return is
  (last - first) / first * 100 where first and last are the first and the last price of
  that series, in chronological order, that is not missing; it is not a finite number
  when every price is missing or the first one is zero. When no price of the series is
  missing this is the return of the first and the last price of the series itself.
\<close>

theorem stock_return_first_last_valid:
  assumes "analyze_esg_vs_stock_returns self names start_date end_date biz_risks = Inr out"
  shows "(\<forall>row\<in>set out.
            let series = company_series self (return_row.Full_Name row) start_date end_date;
                valid = List.map_filter id series
            in series \<noteq> []
             \<and> Stock_Return row = (if valid = [] \<or> hd valid = 0 then None
                                    else Some ((last valid - hd valid) / hd valid * 100))
             \<and> (None \<notin> set series \<longrightarrow> Stock_Return row = first_last_return series))
       \<and> (\<forall>r\<in>set (records (esg self)). \<forall>level.
            esg_row.Full_Name r \<in> set names
            \<and> classify_biz_risk (overallRisk r) = Inr level
            \<and> passes_biz_risks biz_risks level
            \<and> company_series self (esg_row.Full_Name r) start_date end_date \<noteq> []
            \<longrightarrow> (\<exists>row\<in>set out. return_row.Full_Name row = esg_row.Full_Name r
                    \<and> return_row.totalEsg row = esg_row.totalEsg r
                    \<and> Business_Risk_Level row = level))"
proof (intro conjI ballI allI impI)
  fix row
  assume row: "row \<in> set out"
  let ?series = "company_series self (return_row.Full_Name row) start_date end_date"
  from analyze_row[OF assms row]
  have ne: "?series \<noteq> []"
    and ret: "Stock_Return row = stock_return (agg_first ?series) (agg_last ?series)"
    by simp_all
  have "None \<notin> set ?series \<Longrightarrow> Stock_Return row = first_last_return ?series"
    using ne ret by (cases ?series) (simp_all add: first_last_return_def agg_all_valid)
  with ne ret
  show "let series = ?series; valid = List.map_filter id series
        in series \<noteq> []
         \<and> Stock_Return row = (if valid = [] \<or> hd valid = 0 then None
                                else Some ((last valid - hd valid) / hd valid * 100))
         \<and> (None \<notin> set series \<longrightarrow> Stock_Return row = first_last_return series)"
    by (simp add: stock_return_valid Let_def)
next
  fix r level
  assume r: "r \<in> set (records (esg self))"
    and sel: "esg_row.Full_Name r \<in> set names
            \<and> classify_biz_risk (overallRisk r) = Inr level
            \<and> passes_biz_risks biz_risks level
            \<and> company_series self (esg_row.Full_Name r) start_date end_date \<noteq> []"
  from sel show "\<exists>row\<in>set out. return_row.Full_Name row = esg_row.Full_Name r
                    \<and> return_row.totalEsg row = esg_row.totalEsg r
                    \<and> Business_Risk_Level row = level"
    by (intro analyze_complete[OF assms r]) simp_all
qed

text \<open>The example: the prices 100, 110, 121 give a return of 21 percent.\<close>

theorem stock_return_first_last_valid_witness:
  "analyze_esg_vs_stock_returns api_example [''Bolt'', ''Acme''] None None None
     = Inr [acme_return, bolt_return]
   \<and> acme_return \<in> set [acme_return, bolt_return]
   \<and> company_series api_example ''Acme'' None None = [Some 100, Some 110, Some 121]
   \<and> Stock_Return acme_return = Some 21
   \<and> Stock_Return acme_return = first_last_return [Some 100, Some 110, Some 121]"
proof -
  have run: "analyze_esg_vs_stock_returns api_example [''Bolt'', ''Acme''] None None None
               = Inr [acme_return, bolt_return]"
    by code_simp
  have mem: "acme_return \<in> set [acme_return, bolt_return]"
    by simp
  have series: "company_series api_example ''Acme'' None None = [Some 100, Some 110, Some 121]"
    by code_simp
  have name: "return_row.Full_Name acme_return = ''Acme''"
    by (simp add: acme_return_def)
  from stock_return_first_last_valid[OF run]
  have "\<forall>row\<in>set [acme_return, bolt_return].
          let series = company_series api_example (return_row.Full_Name row) None None;
              valid = List.map_filter id series
          in series \<noteq> []
           \<and> Stock_Return row = (if valid = [] \<or> hd valid = 0 then None
                                  else Some ((last valid - hd valid) / hd valid * 100))
           \<and> (None \<notin> set series \<longrightarrow> Stock_Return row = first_last_return series)"
    by (rule conjunct1)
  from bspec[OF this mem]
  have claimed: "Stock_Return acme_return = first_last_return [Some 100, Some 110, Some 121]"
    by (simp add: name series Let_def first_last_return_def)
  have ret21: "Stock_Return acme_return = Some 21"
    by (simp add: acme_return_def)
  from run mem series ret21 claimed show ?thesis
    by blast
qed

text \<open>
  With a missing price at the start of the range the two differ: the series of the second
  example company is NaN, 50, 55; the return of its first and last price is NaN, and the
  code reports 10 percent, from 50 and 55.
\<close>

theorem stock_return_skips_missing_counterexample:
  "analyze_esg_vs_stock_returns api_example [''Bolt'', ''Acme''] None None None
     = Inr [acme_return, bolt_return]
   \<and> company_series api_example ''Bolt'' None None = [None, Some 50, Some 55]
   \<and> Stock_Return bolt_return = Some 10
   \<and> first_last_return (company_series api_example ''Bolt'' None None) = None"
  by code_simp



section \<open>Properties of loading\<close>


lemma to_numeric_Inr: "to_numeric cs = Inr vs \<Longrightarrow> vs = cs"
  by (induction cs arbitrary: vs rule: to_numeric.induct) (auto split: sum.splits)


lemma to_datetime_Inr: "to_datetime ds = Inr ts \<Longrightarrow> ds = map Parsable ts"
  by (induction ds arbitrary: ts rule: to_datetime.induct) (auto split: sum.splits)

lemma map2_totalEsg_id:
  "map (\<lambda>(r, v). r\<lparr>esg_row.totalEsg := v\<rparr>) (zip rs (map esg_row.totalEsg rs)) = rs"
  by (induction rs) auto

lemma map2_totalEsg_comp:
  "map (f \<circ> (\<lambda>(r, v). r\<lparr>esg_row.totalEsg := v\<rparr>)) (zip rs (map esg_row.totalEsg rs)) = map f rs"
  by (simp only: map_map[symmetric] map2_totalEsg_id)

lemma read_data_Inr:
  assumes "read_data esg_csv stocks_csv = Inr self"
  obtains ds dates long where
    "Date_column stocks_csv = Some ds" "to_datetime ds = Inr dates"
    "esg self = esg_csv"
    "melt dates (value_columns stocks_csv) = Inr long"
    "stocks self = List.map_filter
        (\<lambda>(d, sym, p). map_option
           (\<lambda>name. \<lparr>Date = d, Symbol = sym, Price = p, stock_row.Full_Name = name\<rparr>)
           (dict_zip (map esg_row.Symbol (records esg_csv))
                     (map esg_row.Full_Name (records esg_csv)) sym))
        long"
  using assms
  by (auto simp: read_data_def Let_def map2_totalEsg_id map2_totalEsg_comp
           split: if_splits sum.splits option.splits dest!: to_numeric_Inr)

lemma dict_zip_None:
  "dict_zip (map f rs) (map g rs) k = None \<longleftrightarrow> k \<notin> f ` set rs"
  by (force simp: dict_zip_def map_of_eq_None_iff zip_map_map zip_same_conv_map image_iff)

lemma map_filter_lookup:
  "map (\<lambda>r. (Date r, stock_row.Symbol r, Price r))
     (List.map_filter
        (\<lambda>(d, sym, p). map_option
           (\<lambda>name. \<lparr>Date = d, Symbol = sym, Price = p, stock_row.Full_Name = name\<rparr>) (m sym))
        xs)
   = filter (\<lambda>(d, sym, p). m sym \<noteq> None) xs"
  by (induction xs) (auto simp: List.map_filter_def)

lemma extract_rows_from_stocks:
  "t \<in> set (extract_stock_price_trends self names s e)
   \<Longrightarrow> \<exists>r\<in>set (stocks self). t = (Date r, stock_row.Full_Name r, Price r)"
  by (auto simp: extract_alt)

text \<open>
  C6. After a successful \<open>read_data\<close> the ESG table is the one read, and the long price
  table holds exactly the cells of the price file whose ticker is a symbol of the ESG
  table: every symbol in it is a symbol of the ESG table, so a ticker without a rating
  never appears. The later calls take the loaded object and return a table only; each
  row \<open>extract_stock_price_trends\<close> returns comes from a row of the long table, whose
  symbol is in the ESG table.
\<close>

theorem read_data_restricts_to_esg_symbols:
  assumes "read_data esg_csv stocks_csv = Inr self"
  shows "esg self = esg_csv
       \<and> (\<exists>dates long. Date_column stocks_csv = Some (map Parsable dates)
            \<and> melt dates (value_columns stocks_csv) = Inr long
            \<and> map (\<lambda>r. (Date r, stock_row.Symbol r, Price r)) (stocks self)
                = filter (\<lambda>(d, sym, p). sym \<in> esg_row.Symbol ` set (records esg_csv)) long)
       \<and> stock_row.Symbol ` set (stocks self) \<subseteq> esg_row.Symbol ` set (records (esg self))
       \<and> (\<forall>names start_date end_date.
             \<forall>t\<in>set (extract_stock_price_trends self names start_date end_date).
               \<exists>r\<in>set (stocks self). t = (Date r, stock_row.Full_Name r, Price r)
                 \<and> stock_row.Symbol r \<in> esg_row.Symbol ` set (records (esg self)))"
proof -
  let ?m = "dict_zip (map esg_row.Symbol (records esg_csv)) (map esg_row.Full_Name (records esg_csv))"
  from assms obtain ds dates long where
    dc: "Date_column stocks_csv = Some ds" and dt: "to_datetime ds = Inr dates" and
    e: "esg self = esg_csv" and
    ml: "melt dates (value_columns stocks_csv) = Inr long" and
    st: "stocks self = List.map_filter
        (\<lambda>(d, sym, p). map_option
           (\<lambda>name. \<lparr>Date = d, Symbol = sym, Price = p, stock_row.Full_Name = name\<rparr>) (?m sym))
        long"
    by (rule read_data_Inr)
  have rows: "map (\<lambda>r. (Date r, stock_row.Symbol r, Price r)) (stocks self)
      = filter (\<lambda>(d, sym, p). sym \<in> esg_row.Symbol ` set (records esg_csv)) long"
    unfolding st map_filter_lookup by (simp add: dict_zip_None)
  have sub: "stock_row.Symbol ` set (stocks self) \<subseteq> esg_row.Symbol ` set (records esg_csv)"
  proof
    fix sym assume "sym \<in> stock_row.Symbol ` set (stocks self)"
    then obtain r where "r \<in> set (stocks self)" "sym = stock_row.Symbol r" by blast
    then have "(Date r, sym, Price r)
                 \<in> set (map (\<lambda>r. (Date r, stock_row.Symbol r, Price r)) (stocks self))"
      by force
    then show "sym \<in> esg_row.Symbol ` set (records esg_csv)"
      unfolding rows by simp
  qed
  have views: "\<forall>names start_date end_date.
             \<forall>t\<in>set (extract_stock_price_trends self names start_date end_date).
               \<exists>r\<in>set (stocks self). t = (Date r, stock_row.Full_Name r, Price r)
                 \<and> stock_row.Symbol r \<in> esg_row.Symbol ` set (records (esg self))"
    using sub e extract_rows_from_stocks by fastforce
  from dc to_datetime_Inr[OF dt] ml rows
  have "\<exists>dates long. Date_column stocks_csv = Some (map Parsable dates)
            \<and> melt dates (value_columns stocks_csv) = Inr long
            \<and> map (\<lambda>r. (Date r, stock_row.Symbol r, Price r)) (stocks self)
                = filter (\<lambda>(d, sym, p). sym \<in> esg_row.Symbol ` set (records esg_csv)) long"
    by blast
  with e sub views show ?thesis
    by simp
qed

text \<open>The example: the ticker ZZZ of the price file has no rating and is dropped.\<close>

theorem read_data_restricts_to_esg_symbols_witness:
  "read_data esg_example prices_example = Inr api_example
   \<and> ''ZZZ'' \<in> fst ` set (value_columns prices_example)
   \<and> ''ZZZ'' \<notin> esg_row.Symbol ` set (records esg_example)
   \<and> ''ZZZ'' \<notin> stock_row.Symbol ` set (stocks api_example)"
proof -
  have run: "read_data esg_example prices_example = Inr api_example"
    by code_simp
  have price: "''ZZZ'' \<in> fst ` set (value_columns prices_example)"
    by (simp add: prices_example_def)
  have norating: "''ZZZ'' \<notin> esg_row.Symbol ` set (records esg_example)"
    by (simp add: esg_example_def acme_def bolt_def)
  from read_data_restricts_to_esg_symbols[OF run]
  have "esg api_example = esg_example"
    and "stock_row.Symbol ` set (stocks api_example)
           \<subseteq> esg_row.Symbol ` set (records (esg api_example))"
    by blast+
  with norating have "''ZZZ'' \<notin> stock_row.Symbol ` set (stocks api_example)"
    by auto
  with run price norating show ?thesis
    by blast
qed




section \<open>Properties of the Sankey data\<close>

lemma zip_tl_nth: "zip xs (tl xs) = map (\<lambda>i. (xs ! i, xs ! Suc i)) [0..<length xs - 1]"
  by (rule nth_equalityI) (auto simp: nth_tl)

lemma stacked_dfs_Inr:
  assumes "\<forall>(col1, col2)\<in>set pairs. col1 \<in> set (columns df) \<and> col2 \<in> set (columns df)"
      and "''value'' \<in> set (columns df)"
  shows "stacked_dfs df pairs =
     Inr (map (\<lambda>(col1, col2).
                 map (\<lambda>r. (\<lambda>name. NaN 0)(''src'' := r col1, ''targ'' := r col2,
                                          ''value'' := r ''value''))
                     (rows df))
              pairs)"
  using assms by (induction pairs) (auto simp: pair_df_def)

text \<open>
  C5. For a frame with \<open>n\<close> rows that has a "value" column and a list of \<open>k \<ge> 2\<close> of
  its column names, \<open>stack_columns\<close> returns a frame of the columns src, targ, value
  with exactly \<open>n * (k - 1)\<close> rows: for each adjacent pair of the list, in order, and each
  row \<open>r\<close> of the input, in order, the triple of \<open>r\<close> at the first name, \<open>r\<close> at the
  second name and \<open>r\<close> at "value"; and nothing else.
\<close>

theorem stack_columns_adjacent_pairs:
  assumes "2 \<le> length cols"
      and "set cols \<subseteq> set (columns df)"
      and "''value'' \<in> set (columns df)"
  shows "\<exists>out. stack_columns df cols = Inr out
           \<and> columns out = [''src'', ''targ'', ''value'']
           \<and> map (\<lambda>r. (r ''src'', r ''targ'', r ''value'')) (rows out)
               = concat (map (\<lambda>i. map (\<lambda>r. (r (cols ! i), r (cols ! Suc i), r ''value''))
                                        (rows df))
                             [0..<length cols - 1])
           \<and> length (rows out) = length (rows df) * (length cols - 1)"
proof -
  let ?mk = "\<lambda>(col1, col2). map (\<lambda>r. (\<lambda>name. NaN 0)(''src'' := r col1, ''targ'' := r col2,
                                          ''value'' := r ''value'')) (rows df)"
  let ?pairs = "zip cols (tl cols)"
  have mem: "\<forall>(col1, col2)\<in>set ?pairs. col1 \<in> set (columns df) \<and> col2 \<in> set (columns df)"
  proof -
    have "set (tl cols) \<subseteq> set cols"
      by (cases cols) auto
    with assms(2) show ?thesis
      by (auto dest: set_zip_leftD set_zip_rightD)
  qed
  have st: "stacked_dfs df ?pairs = Inr (map ?mk ?pairs)"
    by (rule stacked_dfs_Inr[OF mem assms(3)])
  have ne: "map ?mk ?pairs \<noteq> []"
    using assms(1) by (cases cols; cases "tl cols") auto
  let ?out = "\<lparr>columns = [''src'', ''targ'', ''value''], rows = concat (map ?mk ?pairs)\<rparr>"
  have run: "stack_columns df cols = Inr ?out"
    using ne by (simp add: stack_columns_def st split: list.splits)
  have trip: "map (\<lambda>r. (r ''src'', r ''targ'', r ''value'')) (rows ?out)
               = concat (map (\<lambda>i. map (\<lambda>r. (r (cols ! i), r (cols ! Suc i), r ''value''))
                                        (rows df))
                             [0..<length cols - 1])"
    by (simp add: zip_tl_nth map_concat o_def)
  have len: "length (rows ?out) = length (rows df) * (length cols - 1)"
    by (simp add: zip_tl_nth length_concat o_def sum_list_triv)
  from run trip len show ?thesis
    by (intro exI[of _ ?out]) simp
qed

text \<open>The example: two rows and three columns give four triples.\<close>

theorem stack_columns_adjacent_pairs_witness:
  "2 \<le> length [''Company'', ''ESG Dimension'', ''ESG Level'']
   \<and> set [''Company'', ''ESG Dimension'', ''ESG Level''] \<subseteq> set (columns valued_example)
   \<and> ''value'' \<in> set (columns valued_example)
   \<and> (\<exists>out. stack_columns valued_example [''Company'', ''ESG Dimension'', ''ESG Level'']
                = Inr out
            \<and> map (\<lambda>r. (r ''src'', r ''targ'', r ''value'')) (rows out)
                = [(Txt ''Acme'', Txt ''Social'', Num 11), (Txt ''Bolt'', Txt ''Social'', Num 8),
                   (Txt ''Social'', Txt ''High ESG'', Num 11),
                   (Txt ''Social'', Txt ''Medium ESG'', Num 8)]
            \<and> length (rows out) = 4)"
proof -
  have len: "2 \<le> length [''Company'', ''ESG Dimension'', ''ESG Level'']"
    by simp
  have sub: "set [''Company'', ''ESG Dimension'', ''ESG Level''] \<subseteq> set (columns valued_example)"
    by (simp add: valued_example_def flows_example_def set_column_def)
  have val: "''value'' \<in> set (columns valued_example)"
    by (simp add: valued_example_def flows_example_def set_column_def)
  have n: "[0..<length [''Company'', ''ESG Dimension'', ''ESG Level''] - 1] = [0, 1]"
    by (simp add: upt_rec)
  from stack_columns_adjacent_pairs[OF len sub val] obtain out where
    "stack_columns valued_example [''Company'', ''ESG Dimension'', ''ESG Level''] = Inr out"
    "map (\<lambda>r. (r ''src'', r ''targ'', r ''value'')) (rows out)
       = concat (map (\<lambda>i. map (\<lambda>r. (r ([''Company'', ''ESG Dimension'', ''ESG Level''] ! i),
                                     r ([''Company'', ''ESG Dimension'', ''ESG Level''] ! Suc i),
                                     r ''value''))
                               (rows valued_example))
                     [0..<length [''Company'', ''ESG Dimension'', ''ESG Level''] - 1])"
    "length (rows out) = length (rows valued_example)
                           * (length [''Company'', ''ESG Dimension'', ''ESG Level''] - 1)"
    by (elim exE conjE) (rule that)
  then have "stack_columns valued_example [''Company'', ''ESG Dimension'', ''ESG Level''] = Inr out
       \<and> map (\<lambda>r. (r ''src'', r ''targ'', r ''value'')) (rows out)
           = [(Txt ''Acme'', Txt ''Social'', Num 11), (Txt ''Bolt'', Txt ''Social'', Num 8),
              (Txt ''Social'', Txt ''High ESG'', Num 11),
              (Txt ''Social'', Txt ''Medium ESG'', Num 8)]
       \<and> length (rows out) = 4"
    unfolding n by (simp add: valued_example_def flows_example_def set_column_def)
  then have "\<exists>out. stack_columns valued_example [''Company'', ''ESG Dimension'', ''ESG Level'']
                = Inr out
            \<and> map (\<lambda>r. (r ''src'', r ''targ'', r ''value'')) (rows out)
                = [(Txt ''Acme'', Txt ''Social'', Num 11), (Txt ''Bolt'', Txt ''Social'', Num 8),
                   (Txt ''Social'', Txt ''High ESG'', Num 11),
                   (Txt ''Social'', Txt ''Medium ESG'', Num 8)]
            \<and> length (rows out) = 4"
    by (rule exI)
  with len sub val show ?thesis
    by (intro conjI)
qed

lemma dict_zip_codes:
  assumes "distinct labels"
  shows "dict_zip labels [0..<length labels] l = Some i \<longleftrightarrow> i < length labels \<and> labels ! i = l"
proof -
  have "distinct (map fst (rev (zip labels [0..<length labels])))"
    using assms by (simp add: rev_map[symmetric])
  then have "map_of (rev (zip labels [0..<length labels])) l = Some i
             \<longleftrightarrow> (l, i) \<in> set (rev (zip labels [0..<length labels]))"
    by (rule map_of_eq_Some_iff)
  also have "\<dots> \<longleftrightarrow> i < length labels \<and> labels ! i = l"
    by (auto simp: in_set_zip)
  finally show ?thesis
    by (simp add: dict_zip_def)
qed

lemma codes_of_distinct:
  assumes dist: "distinct labels"
  shows "inj_on (\<lambda>l. the (dict_zip labels [0..<length labels] l)) (set labels)"
    and "(\<lambda>l. the (dict_zip labels [0..<length labels] l)) ` set labels = {0..<length labels}"
    and "\<forall>l\<in>set labels.
           labels ! the (dict_zip labels [0..<length labels] l) = l
         \<and> dict_zip labels [0..<length labels] l
             = Some (the (dict_zip labels [0..<length labels] l))"
proof -
  let ?lc = "dict_zip labels [0..<length labels]"
  let ?code = "\<lambda>l. the (?lc l)"
  have code_nth: "?lc (labels ! i) = Some i" if "i < length labels" for i
    using dict_zip_codes[OF dist, of "labels ! i" i] that by simp
  have code_ok: "?code l < length labels \<and> labels ! ?code l = l \<and> ?lc l = Some (?code l)"
    if "l \<in> set labels" for l
  proof -
    from that obtain i where "i < length labels" "labels ! i = l"
      by (auto simp: in_set_conv_nth)
    with code_nth[of i] show ?thesis by auto
  qed
  show "inj_on ?code (set labels)"
    by (rule inj_onI) (metis code_ok)
  show "?code ` set labels = {0..<length labels}"
  proof
    show "?code ` set labels \<subseteq> {0..<length labels}"
      using code_ok by auto
    show "{0..<length labels} \<subseteq> ?code ` set labels"
    proof
      fix i assume "i \<in> {0..<length labels}"
      then have i: "i < length labels" by simp
      then have "?code (labels ! i) = i"
        by (simp add: code_nth)
      moreover have "labels ! i \<in> set labels"
        using i by simp
      ultimately show "i \<in> ?code ` set labels"
        by (metis imageI)
    qed
  qed
  show "\<forall>l\<in>set labels. labels ! ?code l = l \<and> ?lc l = Some (?code l)"
    using code_ok by blast
qed

lemma at_most_one_NaN:
  assumes "distinct xs" and "\<forall>i j. NaN i \<in> set xs \<longrightarrow> NaN j \<in> set xs \<longrightarrow> i = j"
  shows "length (filter is_NaN xs) \<le> 1"
proof (cases "filter is_NaN xs")
  case Nil
  then show ?thesis by simp
next
  case (Cons a as)
  show ?thesis
  proof (cases as)
    case Nil
    with Cons show ?thesis by simp
  next
    case (Cons b bs)
    with \<open>filter is_NaN xs = a # as\<close> have f: "filter is_NaN xs = a # b # bs"
      by simp
    then have "a \<in> set (filter is_NaN xs)" "b \<in> set (filter is_NaN xs)"
      by simp_all
    then have mem: "a \<in> set xs" "b \<in> set xs" and nan: "is_NaN a" "is_NaN b"
      by simp_all
    from nan obtain i j where "a = NaN i" "b = NaN j"
      by (cases a; cases b) simp_all
    with mem assms(2) have "a = b"
      by blast
    moreover from assms(1) have "distinct (filter is_NaN xs)"
      by (rule distinct_filter)
    ultimately show ?thesis
      using f by simp
  qed
qed

lemma two_NaN:
  assumes "distinct xs" and "NaN i \<in> set xs" and "NaN j \<in> set xs" and "i \<noteq> j"
  shows "2 \<le> length (filter is_NaN xs)"
proof -
  have d: "distinct (filter is_NaN xs)"
    using assms(1) by (rule distinct_filter)
  have "{NaN i, NaN j} \<subseteq> set (filter is_NaN xs)"
    using assms(2,3) by simp
  then have "card {NaN i, NaN j} \<le> card (set (filter is_NaN xs))"
    by (intro card_mono) simp_all
  with assms(4) distinct_card[OF d] show ?thesis
    by simp
qed

text \<open>
  C2, as the code has it. \<open>code_mapping\<close> on two different columns, whatever the order in
  which the set of labels is listed. When at most one NaN object is among the labels, the
  labels returned are the \<open>N\<close> distinct labels of the two columns, and there is a code
  for every label, the same at every occurrence, different for different labels, the
  codes being exactly \<open>0, ..., N - 1\<close>, such that the label list at the code of a label is
  that label, and the two columns of the frame returned hold the codes of the labels they
  held. When two NaN objects are among the labels the call raises InvalidIndexError.
\<close>

theorem code_mapping_dense_codes:
  assumes src: "src \<in> set (columns df)" and targ: "targ \<in> set (columns df)"
      and ne: "src \<noteq> targ"
      and enum: "enumerates to_list
                   (set (map (\<lambda>r. r src) (rows df)) \<union> set (map (\<lambda>r. r targ) (rows df)))"
  shows "((\<forall>i j. NaN i \<in> set (map (\<lambda>r. r src) (rows df)) \<union> set (map (\<lambda>r. r targ) (rows df))
              \<longrightarrow> NaN j \<in> set (map (\<lambda>r. r src) (rows df)) \<union> set (map (\<lambda>r. r targ) (rows df))
              \<longrightarrow> i = j)
          \<longrightarrow> (\<exists>df' labels code.
                 code_mapping to_list df src targ = Inr (df', labels)
               \<and> distinct labels
               \<and> set labels
                   = set (map (\<lambda>r. r src) (rows df)) \<union> set (map (\<lambda>r. r targ) (rows df))
               \<and> inj_on code (set labels)
               \<and> code ` set labels = {0..<length labels}
               \<and> (\<forall>l\<in>set labels. labels ! code l = l)
               \<and> map (\<lambda>r. r src) (rows df') = map (\<lambda>r. Num (real (code (r src)))) (rows df)
               \<and> map (\<lambda>r. r targ) (rows df')
                   = map (\<lambda>r. Num (real (code (r targ)))) (rows df)))
       \<and> ((\<exists>i j. i \<noteq> j
               \<and> NaN i \<in> set (map (\<lambda>r. r src) (rows df)) \<union> set (map (\<lambda>r. r targ) (rows df))
               \<and> NaN j \<in> set (map (\<lambda>r. r src) (rows df)) \<union> set (map (\<lambda>r. r targ) (rows df)))
          \<longrightarrow> code_mapping to_list df src targ = Inl InvalidIndexError)"
proof -
  define L where "L = set (map (\<lambda>r. r src) (rows df)) \<union> set (map (\<lambda>r. r targ) (rows df))"
  define labels where "labels = to_list L"
  define lc where "lc = dict_zip labels [0..<length labels]"
  define code where "code = (\<lambda>l. the (lc l))"
  define df2 where
    "df2 = set_column (set_column df src (\<lambda>r. series_map lc (r src)))
                      targ (\<lambda>r. series_map lc (r targ))"
  have dist: "distinct labels" and set_eq: "set labels = L"
    using enum by (simp_all add: enumerates_def labels_def L_def)
  have good: "\<exists>df' labels code.
                 code_mapping to_list df src targ = Inr (df', labels)
               \<and> distinct labels
               \<and> set labels = L
               \<and> inj_on code (set labels)
               \<and> code ` set labels = {0..<length labels}
               \<and> (\<forall>l\<in>set labels. labels ! code l = l)
               \<and> map (\<lambda>r. r src) (rows df') = map (\<lambda>r. Num (real (code (r src)))) (rows df)
               \<and> map (\<lambda>r. r targ) (rows df')
                   = map (\<lambda>r. Num (real (code (r targ)))) (rows df)"
    if one: "\<forall>i j. NaN i \<in> L \<longrightarrow> NaN j \<in> L \<longrightarrow> i = j"
  proof -
    from one set_eq have "\<forall>i j. NaN i \<in> set labels \<longrightarrow> NaN j \<in> set labels \<longrightarrow> i = j"
      by simp
    from at_most_one_NaN[OF dist this] have few: "\<not> 2 \<le> length (filter is_NaN labels)"
      by simp
    have run: "code_mapping to_list df src targ = Inr (df2, labels)"
      using src targ few
      by (simp add: code_mapping_def Let_def df2_def lc_def labels_def L_def)
    from codes_of_distinct[OF dist]
    have inj: "inj_on code (set labels)"
      and img: "code ` set labels = {0..<length labels}"
      and ok: "\<forall>l\<in>set labels. labels ! code l = l \<and> lc l = Some (code l)"
      by (simp_all only: code_def lc_def)
    have sm: "series_map lc l = Num (real (code l))" if "l \<in> L" for l
      using that ok set_eq by (simp add: series_map_def)
    have in_L: "r src \<in> L" "r targ \<in> L" if "r \<in> set (rows df)" for r
      using that by (auto simp: L_def)
    have s: "map (\<lambda>r. r src) (rows df2) = map (\<lambda>r. Num (real (code (r src)))) (rows df)"
      using ne by (simp add: df2_def set_column_def sm in_L)
    have t: "map (\<lambda>r. r targ) (rows df2) = map (\<lambda>r. Num (real (code (r targ)))) (rows df)"
      using ne by (simp add: df2_def set_column_def sm in_L)
    from ok have rt: "\<forall>l\<in>set labels. labels ! code l = l"
      by blast
    from run dist set_eq inj img rt s t show ?thesis
      by blast
  qed
  have bad: "code_mapping to_list df src targ = Inl InvalidIndexError"
    if two: "\<exists>i j. i \<noteq> j \<and> NaN i \<in> L \<and> NaN j \<in> L"
  proof -
    from two set_eq obtain i j where "i \<noteq> j" "NaN i \<in> set labels" "NaN j \<in> set labels"
      by auto
    with dist have "2 \<le> length (filter is_NaN labels)"
      by (intro two_NaN[of labels i j])
    then show ?thesis
      using src targ by (simp add: code_mapping_def Let_def labels_def L_def)
  qed
  from good bad show ?thesis
    unfolding L_def by blast
qed

text \<open>The example: the labels X, Y, Z get the codes 0, 1, 2 in some order.\<close>

theorem code_mapping_dense_codes_witness:
  "''src'' \<in> set (columns links_example) \<and> ''targ'' \<in> set (columns links_example)
   \<and> ''src'' \<noteq> ''targ''
   \<and> enumerates order_example
        (set (map (\<lambda>r. r ''src'') (rows links_example))
           \<union> set (map (\<lambda>r. r ''targ'') (rows links_example)))
   \<and> (\<exists>df' labels code.
          code_mapping order_example links_example ''src'' ''targ'' = Inr (df', labels)
        \<and> set labels = {Txt ''X'', Txt ''Y'', Txt ''Z''}
        \<and> inj_on code (set labels)
        \<and> code ` set labels = {0..<3}
        \<and> (\<forall>l\<in>set labels. labels ! code l = l)
        \<and> map (\<lambda>r. r ''src'') (rows df')
            = [Num (real (code (Txt ''X''))), Num (real (code (Txt ''Y''))),
               Num (real (code (Txt ''X'')))]
        \<and> map (\<lambda>r. r ''targ'') (rows df')
            = [Num (real (code (Txt ''Y''))), Num (real (code (Txt ''Z''))),
               Num (real (code (Txt ''Z'')))])"
proof -
  have cols: "''src'' \<in> set (columns links_example)" "''targ'' \<in> set (columns links_example)"
    by (simp_all add: links_example_def)
  have ne: "''src'' \<noteq> ''targ''"
    by simp
  have L: "set (map (\<lambda>r. r ''src'') (rows links_example))
             \<union> set (map (\<lambda>r. r ''targ'') (rows links_example))
           = {Txt ''X'', Txt ''Y'', Txt ''Z''}"
    by (auto simp: links_example_def)
  have enum: "enumerates order_example
        (set (map (\<lambda>r. r ''src'') (rows links_example))
           \<union> set (map (\<lambda>r. r ''targ'') (rows links_example)))"
    unfolding L by (auto simp: enumerates_def order_example_def)
  have nonan: "\<forall>i j. NaN i \<in> set (map (\<lambda>r. r ''src'') (rows links_example))
                         \<union> set (map (\<lambda>r. r ''targ'') (rows links_example))
             \<longrightarrow> NaN j \<in> set (map (\<lambda>r. r ''src'') (rows links_example))
                         \<union> set (map (\<lambda>r. r ''targ'') (rows links_example))
             \<longrightarrow> i = j"
    unfolding L by simp
  from mp[OF conjunct1[OF code_mapping_dense_codes[OF cols ne enum]] nonan]
  obtain df' labels code where
    run: "code_mapping order_example links_example ''src'' ''targ'' = Inr (df', labels)" and
    dist: "distinct labels" and
    set_eq0: "set labels = set (map (\<lambda>r. r ''src'') (rows links_example))
                            \<union> set (map (\<lambda>r. r ''targ'') (rows links_example))" and
    inj: "inj_on code (set labels)" and
    img: "code ` set labels = {0..<length labels}" and
    rt: "\<forall>l\<in>set labels. labels ! code l = l" and
    s: "map (\<lambda>r. r ''src'') (rows df')
          = map (\<lambda>r. Num (real (code (r ''src'')))) (rows links_example)" and
    t: "map (\<lambda>r. r ''targ'') (rows df')
          = map (\<lambda>r. Num (real (code (r ''targ'')))) (rows links_example)"
    by (elim exE conjE) (rule that)
  from set_eq0 have set_eq: "set labels = {Txt ''X'', Txt ''Y'', Txt ''Z''}"
    by (simp only: L)
  have "length labels = card {Txt ''X'', Txt ''Y'', Txt ''Z''}"
    using distinct_card[OF dist] set_eq by simp
  then have three: "length labels = 3"
    by simp
  have s': "map (\<lambda>r. r ''src'') (rows df')
            = [Num (real (code (Txt ''X''))), Num (real (code (Txt ''Y''))),
               Num (real (code (Txt ''X'')))]"
    unfolding s by (simp add: links_example_def)
  have t': "map (\<lambda>r. r ''targ'') (rows df')
            = [Num (real (code (Txt ''Y''))), Num (real (code (Txt ''Z''))),
               Num (real (code (Txt ''Z'')))]"
    unfolding t by (simp add: links_example_def)
  from img three have img3: "code ` set labels = {0..<3}"
    by simp
  from run set_eq inj img3 rt s' t'
  have "\<exists>df' labels code.
          code_mapping order_example links_example ''src'' ''targ'' = Inr (df', labels)
        \<and> set labels = {Txt ''X'', Txt ''Y'', Txt ''Z''}
        \<and> inj_on code (set labels)
        \<and> code ` set labels = {0..<3}
        \<and> (\<forall>l\<in>set labels. labels ! code l = l)
        \<and> map (\<lambda>r. r ''src'') (rows df')
            = [Num (real (code (Txt ''X''))), Num (real (code (Txt ''Y''))),
               Num (real (code (Txt ''X'')))]
        \<and> map (\<lambda>r. r ''targ'') (rows df')
            = [Num (real (code (Txt ''Y''))), Num (real (code (Txt ''Z''))),
               Num (real (code (Txt ''Z'')))]"
    by (intro exI conjI)
  with cols ne enum show ?thesis
    by (intro conjI)
qed

text \<open>
  A float column with two missing cells: the two NaN are two labels for Python and one
  for pandas, and the call raises.
\<close>

theorem code_mapping_two_NaN_counterexample:
  "enumerates order_gaps {Num 1, NaN 1, NaN 2, Num 2, Num 3, Num 4}
   \<and> code_mapping order_gaps links_gaps ''src'' ''targ'' = Inl InvalidIndexError"
proof -
  have "enumerates order_gaps {Num 1, NaN 1, NaN 2, Num 2, Num 3, Num 4}"
    by (auto simp: enumerates_def order_gaps_def)
  moreover have "code_mapping order_gaps links_gaps ''src'' ''targ'' = Inl InvalidIndexError"
    by (simp add: code_mapping_def links_gaps_def order_gaps_def Let_def)
  ultimately show ?thesis
    by (rule conjI)
qed

text \<open>
  C10. A call of \<open>make_sankey\<close> with at least two columns (and, when \<open>vals\<close> names a
  column, a column the frame has) leaves the caller's frame with a "value" column, new or
  overwritten, that holds the \<open>vals\<close> column when one is given and the constant 1
  otherwise, whether or not the rest of the call succeeds; a frame that had no "value"
  column is not the frame it was.
\<close>

theorem make_sankey_writes_value_column:
  assumes "2 \<le> length cols"
      and "\<forall>v. vals = Some v \<and> v \<noteq> [] \<longrightarrow> v \<in> set (columns df)"
  shows "let caller_df = fst (make_sankey to_list df cols vals)
         in ''value'' \<in> set (columns caller_df)
          \<and> set (columns caller_df) = insert ''value'' (set (columns df))
          \<and> rows caller_df =
              map (\<lambda>r. r(''value'' := (case vals of None \<Rightarrow> Num 1
                                       | Some v \<Rightarrow> if v = [] then Num 1 else r v)))
                  (rows df)
          \<and> (''value'' \<notin> set (columns df) \<longrightarrow> caller_df \<noteq> df)"
proof -
  let ?caller = "fst (make_sankey to_list df cols vals)"
  have cols: "set (columns ?caller) = insert ''value'' (set (columns df))"
    using assms by (cases vals) (auto simp: make_sankey_def set_column_def)
  have rws: "rows ?caller =
              map (\<lambda>r. r(''value'' := (case vals of None \<Rightarrow> Num 1
                                       | Some v \<Rightarrow> if v = [] then Num 1 else r v)))
                  (rows df)"
    using assms by (cases vals) (auto simp: make_sankey_def set_column_def)
  have "''value'' \<notin> set (columns df) \<longrightarrow> ?caller \<noteq> df"
    using cols by auto
  with cols rws show ?thesis
    by (simp add: Let_def)
qed

text \<open>The example: the dashboard's frame gets the column "value" from "Score".\<close>

theorem make_sankey_writes_value_column_witness:
  "2 \<le> length [''Company'', ''ESG Level'']
   \<and> ''Score'' \<in> set (columns flows_example)
   \<and> ''value'' \<notin> set (columns flows_example)
   \<and> ''value'' \<in> set (columns (fst (make_sankey order_example flows_example
                                        [''Company'', ''ESG Level''] (Some ''Score''))))
   \<and> map (\<lambda>r. r ''value'')
          (rows (fst (make_sankey order_example flows_example
                        [''Company'', ''ESG Level''] (Some ''Score''))))
       = [Num 11, Num 8]
   \<and> fst (make_sankey order_example flows_example [''Company'', ''ESG Level''] (Some ''Score''))
       \<noteq> flows_example"
proof -
  have len: "2 \<le> length [''Company'', ''ESG Level'']"
    by simp
  have score: "''Score'' \<in> set (columns flows_example)"
    and novalue: "''value'' \<notin> set (columns flows_example)"
    by (simp_all add: flows_example_def)
  from score have vals: "\<forall>v. Some ''Score'' = Some v \<and> v \<noteq> [] \<longrightarrow> v \<in> set (columns flows_example)"
    by simp
  from make_sankey_writes_value_column[OF len vals, of order_example] novalue
  have "''value'' \<in> set (columns (fst (make_sankey order_example flows_example
                                        [''Company'', ''ESG Level''] (Some ''Score''))))"
    and "rows (fst (make_sankey order_example flows_example
                        [''Company'', ''ESG Level''] (Some ''Score'')))
          = map (\<lambda>r. r(''value'' := r ''Score'')) (rows flows_example)"
    and "fst (make_sankey order_example flows_example [''Company'', ''ESG Level''] (Some ''Score''))
          \<noteq> flows_example"
    by (simp_all add: Let_def)
  moreover have "map (\<lambda>r. r ''value'') (map (\<lambda>r. r(''value'' := r ''Score'')) (rows flows_example))
                  = [Num 11, Num 8]"
    by (simp add: flows_example_def)
  ultimately show ?thesis
    using len score novalue by simp
qed

end
